theory Spec2Isabelle
  imports Main
begin

section \<open>JavaScript string primitives used by the sources\<close>

text \<open>
  A JavaScript string is a sequence of code units; the model uses \<^typ>\<open>string\<close>
  (a list of characters). Only the operations the sources call are defined, each with
  the clamping JavaScript applies to its arguments.
\<close>

definition substring :: "string \<Rightarrow> nat \<Rightarrow> nat \<Rightarrow> string" where
  \<comment> \<open>\<open>s.substring(a, b)\<close>: both indices clamped to the length, swapped when \<open>a > b\<close>.\<close>
  "substring s a b = take (max a b - min a b) (drop (min a b) s)"

definition slice_last :: "string \<Rightarrow> nat \<Rightarrow> string" where
  \<comment> \<open>\<open>s.slice(-k)\<close>: the last \<open>k\<close> code units, the whole string when it is shorter.\<close>
  "slice_last s k = drop (length s - k) s"

definition slice_from :: "string \<Rightarrow> nat \<Rightarrow> string" where
  \<comment> \<open>\<open>s.slice(k)\<close> for \<open>k \<ge> 0\<close>.\<close>
  "slice_from s k = drop k s"

definition repeat :: "string \<Rightarrow> nat \<Rightarrow> string" where
  \<comment> \<open>\<open>s.repeat(n)\<close>.\<close>
  "repeat s n = concat (replicate n s)"

definition toUpperCase_char :: "char \<Rightarrow> char" where
  \<comment> \<open>\<open>toUpperCase\<close> on one character, for ASCII text: the letters a-z are mapped, any
     other character is left as it is. JavaScript also maps letters outside ASCII;
     only the display name of the mock user that \<open>login\<close> builds depends on this.\<close>
  "toUpperCase_char c =
     (let n = (of_char c :: nat) in if 97 \<le> n \<and> n \<le> 122 then char_of (n - 32) else c)"

definition split_first :: "char \<Rightarrow> string \<Rightarrow> string" where
  \<comment> \<open>\<open>s.split(sep)[0]\<close>: the part before the first separator.\<close>
  "split_first sep s = takeWhile (\<lambda>c. c \<noteq> sep) s"

definition split_second :: "char \<Rightarrow> string \<Rightarrow> string option" where
  \<comment> \<open>\<open>s.split(sep)[1]\<close>: \<open>undefined\<close> (\<open>None\<close>) when there is no separator.\<close>
  "split_second sep s =
     (case dropWhile (\<lambda>c. c \<noteq> sep) s of
        [] \<Rightarrow> None
      | _ # rest \<Rightarrow> Some (takeWhile (\<lambda>c. c \<noteq> sep) rest))"

section \<open>Sensitive-data masking (current and legacy editor)\<close>

definition maskSensitiveValue :: "string \<Rightarrow> string \<Rightarrow> string" where
  \<comment> \<open>The current editor. Its \<open>type\<close> parameter is the union \<open>'iban' | 'fiscal_code'\<close>,
     a string at run time.\<close>
  "maskSensitiveValue v ty =
     (if ty = ''iban'' then
        (if length v \<le> 8 then v
         else substring v 0 8 @ '' **** **** **** '' @ slice_last v 4)
      else if ty = ''fiscal_code'' then
        (if length v \<le> 6 then v
         else substring v 0 3 @ ''***'' @ slice_last v 3)
      else repeat ''*'' (min (length v) 16))"

definition maskSensitiveValue_legacy :: "string \<Rightarrow> string \<Rightarrow> string" where
  \<comment> \<open>The legacy editor: no length guard, and the fiscal code is \<open>'codice_fiscale'\<close>.\<close>
  "maskSensitiveValue_legacy v ty =
     (if ty = ''iban'' then substring v 0 8 @ '' **** **** **** '' @ slice_last v 4
      else if ty = ''codice_fiscale'' then substring v 0 3 @ ''***'' @ slice_last v 3
      else repeat ''*'' (min (length v) 16))"

section \<open>The HTTP exchange: requests, responses and the world outside the browser\<close>

datatype http_method = GET | POST | PUT | DELETE | PATCH

datatype TwoFactorMethod = Totp | Email | Sms

text \<open>
  The request bodies the modelled calls send, one constructor per TypeScript interface
  of the auth service; \<open>NoData\<close> is a call without a body.
\<close>

datatype payload =
    NoData
  | LoginRequest string string "string option"
      \<comment> \<open>\<open>{ email, password, totp_code }\<close>\<close>
  | RegisterRequest string string string string
      \<comment> \<open>\<open>{ email, password, name, surname }\<close>\<close>
  | TwoFactorVerificationRequest TwoFactorMethod string "string option"
      \<comment> \<open>\<open>{ method, code, setup_token }\<close>\<close>
  | TOTPRequest string
      \<comment> \<open>\<open>{ totp_code }\<close>\<close>

text \<open>
  A response body is a JSON object; the record lists the fields the declared response
  interfaces give it (\<open>AuthTokenResponse\<close>, \<open>TOTPRequiredResponse\<close>,
  \<open>AccountLockedResponse\<close>, \<open>TwoFactorVerificationResponse\<close>,
  \<open>TOTPValidationResponse\<close>, \<open>ErrorResponse\<close>), a field the object does not have
  being \<open>None\<close>.
\<close>

record response_data =
  error :: "string option"
  message :: "string option"
  code :: "string option"
  totp_required :: "bool option"
  locked_until :: "string option"
  access_token :: "string option"
  verified :: "bool option"
  valid :: "bool option"

record response =
  status :: nat
  data :: response_data

text \<open>
  A request as axios sends it: the call's own fields merged with the instance's
  configuration, and the interceptor's \<open>_retry\<close> mark (\<open>retry\<close>).
\<close>

record request =
  req_method :: http_method  \<comment> \<open>the config's \<open>method\<close>\<close>
  url :: string
  req_data :: payload
  params :: "(string \<times> string) list"
  baseURL :: string
  timeout :: nat
  headers :: "(string \<times> string) list"
  withCredentials :: bool
  retry :: bool

text \<open>
  The optional per-call \<open>AxiosRequestConfig\<close>, with the field the repository's callers
  set (\<open>params\<close>) and the three the instance configures; a field the caller leaves out
  is \<open>None\<close>.
\<close>

record request_config =
  cfg_params :: "(string \<times> string) list option"
  cfg_baseURL :: "string option"
  cfg_timeout :: "nat option"
  cfg_withCredentials :: "bool option"

text \<open>
  What the network gives back for one request: a response axios accepts, or a failure
  that carries the server's response (a status outside the accepted range) or none
  (no answer, timeout).
\<close>

datatype wire_result = Fulfilled response | Failed "response option"

text \<open>
  The world the client acts on: the backend's state, the exchanges made so far, in order,
  and the browser's \<open>document.cookie\<close>. The backend and the network are a parameter
  \<open>t\<close>: a function from the backend state and a request to the result and the next
  backend state.
\<close>

record 'b world =
  server :: 'b
  wire :: "(request \<times> wire_result) list"
  document_cookie :: string

type_synonym 'b transport = "'b \<Rightarrow> request \<Rightarrow> wire_result \<times> 'b"

text \<open>
  What a JavaScript \<open>throw\<close> or a rejected promise carries in the modelled code: an
  axios error (its \<open>config\<close> and, when the server answered, its \<open>response\<close>), a response
  body thrown as it is, or another \<open>Error\<close> with its message.
\<close>

datatype thrown =
    AxiosError request "response option"
  | ThrownData response_data
  | Error string

text \<open>A settled promise: resolved with a value or rejected with what was thrown.\<close>

datatype 'a promise = Resolved 'a | Rejected thrown

section \<open>Token utilities (cookieUtils.ts)\<close>




definition tokenUtils_clearAuthTokens :: "'b world \<Rightarrow> 'b world" where
  \<comment> \<open>An empty body: the world after the call is the world before it.\<close>
  "tokenUtils_clearAuthTokens w = w"

section \<open>The axios instance and its response interceptor (api.ts)\<close>

record instance_config =
  i_baseURL :: string
  i_timeout :: nat
  i_headers :: "(string \<times> string) list"
  i_withCredentials :: bool

definition api_config :: instance_config where
  \<comment> \<open>The argument of \<open>axios.create\<close>.\<close>
  "api_config =
     \<lparr> i_baseURL = ''http://localhost:8080/v1'',
       i_timeout = 10000,
       i_headers = [(''Content-Type'', ''application/json'')],
       i_withCredentials = True \<rparr>"

definition from_config :: "request_config option \<Rightarrow> (request_config \<Rightarrow> 'a option) \<Rightarrow> 'a \<Rightarrow> 'a" where
  \<comment> \<open>A field of the merged configuration: the call's own value when the call gives
     one, the instance's otherwise (axios: the request's config takes precedence over
     the instance's defaults).\<close>
  "from_config cfg field dflt =
     (case cfg of
        None \<Rightarrow> dflt
      | Some c \<Rightarrow> (case field c of None \<Rightarrow> dflt | Some x \<Rightarrow> x))"

definition axios_request ::
  "http_method \<Rightarrow> string \<Rightarrow> payload \<Rightarrow> request_config option \<Rightarrow> request" where
  \<comment> \<open>The request \<open>api.get(url, config)\<close>, \<open>api.post(url, data, config)\<close>, ... build.\<close>
  "axios_request m u d cfg =
     \<lparr> req_method = m, url = u, req_data = d,
       params = from_config cfg cfg_params [],
       baseURL = from_config cfg cfg_baseURL (i_baseURL api_config),
       timeout = from_config cfg cfg_timeout (i_timeout api_config),
       headers = i_headers api_config,
       withCredentials = from_config cfg cfg_withCredentials (i_withCredentials api_config),
       retry = False \<rparr>"

definition refresh_request :: request where
  \<comment> \<open>The request \<open>authService.refreshToken()\<close> issues:
     \<open>apiMethods.post('/auth/refresh')\<close>.\<close>
  "refresh_request = axios_request POST ''/auth/refresh'' NoData None"

definition response_status :: "response option \<Rightarrow> nat option" where
  \<comment> \<open>\<open>error.response?.status\<close>: \<open>undefined\<close> when the error carries no response.\<close>
  "response_status ro = map_option status ro"

text \<open>
  \<open>api n t req w\<close> sends \<open>req\<close> through the instance: the request interceptor and the
  success branch of the response interceptor return their argument; the error branch is
  the one of the source. The refresh it awaits is itself a request through the same
  instance, so the call is recursive; \<open>n\<close> bounds the depth of that recursion, and
  \<open>None\<close> is a promise that has not settled within it.

  In the error branch the original error is rejected after the interceptor has set
  \<open>_retry\<close> on its \<open>config\<close>, hence \<open>AxiosError originalRequest\<close>. The retried call is
  returned, not awaited, so its rejection is the interceptor's. Console output is not
  modelled (the branch for status 500 only logs).
\<close>

fun api ::
  "nat \<Rightarrow> 'b transport \<Rightarrow> request \<Rightarrow> 'b world \<Rightarrow> (response promise \<times> 'b world) option" where
  "api 0 t req w = None"
| "api (Suc n) t req w =
     (case t (server w) req of
        (res, sv) \<Rightarrow>
          (let w1 = w\<lparr>server := sv, wire := wire w @ [(req, res)]\<rparr> in
           case res of
             Fulfilled r \<Rightarrow> Some (Resolved r, w1)
           | Failed ro \<Rightarrow>
               if response_status ro = Some 401 \<and> \<not> retry req then
                 (let originalRequest = req\<lparr>retry := True\<rparr> in
                  case api n t refresh_request w1 of
                    None \<Rightarrow> None
                  | Some (Resolved r', w2) \<Rightarrow> api n t originalRequest w2
                  | Some (Rejected refreshError, w2) \<Rightarrow>
                      Some (Rejected (AxiosError originalRequest ro),
                            tokenUtils_clearAuthTokens w2))
               else Some (Rejected (AxiosError req ro), w1)))"

definition apiMethods_get ::
  "nat \<Rightarrow> 'b transport \<Rightarrow> string \<Rightarrow> request_config option \<Rightarrow> 'b world
     \<Rightarrow> (response promise \<times> 'b world) option" where
  "apiMethods_get n t u cfg w = api n t (axios_request GET u NoData cfg) w"

definition apiMethods_post ::
  "nat \<Rightarrow> 'b transport \<Rightarrow> string \<Rightarrow> payload \<Rightarrow> request_config option \<Rightarrow> 'b world
     \<Rightarrow> (response promise \<times> 'b world) option" where
  "apiMethods_post n t u d cfg w = api n t (axios_request POST u d cfg) w"





section \<open>The auth service (authService.ts)\<close>

definition response_data_of ::
  "(response promise \<times> 'b world) option \<Rightarrow> (response_data promise \<times> 'b world) option" where
  \<comment> \<open>\<open>const response = await ...; return response.data;\<close> with no \<open>catch\<close>: a
     rejection passes through.\<close>
  "response_data_of x =
     (case x of
        None \<Rightarrow> None
      | Some (Resolved response, w) \<Rightarrow> Some (Resolved (data response), w)
      | Some (Rejected e, w) \<Rightarrow> Some (Rejected e, w))"

definition authService_login ::
  "nat \<Rightarrow> 'b transport \<Rightarrow> payload \<Rightarrow> 'b world \<Rightarrow> (response_data promise \<times> 'b world) option" where
  "authService_login n t credentials w =
     (case apiMethods_post n t ''/auth/login'' credentials None w of
        None \<Rightarrow> None
      | Some (Resolved response, w') \<Rightarrow> Some (Resolved (data response), w')
      | Some (Rejected e, w') \<Rightarrow>
          (case e of
             AxiosError cfg (Some r) \<Rightarrow>
               if status r = 422 then Some (Resolved (data r), w')
               else if status r = 423 then Some (Rejected (ThrownData (data r)), w')
               else Some (Rejected e, w')
           | _ \<Rightarrow> Some (Rejected e, w')))"


definition authService_logout ::
  "nat \<Rightarrow> 'b transport \<Rightarrow> 'b world \<Rightarrow> (response_data promise \<times> 'b world) option" where
  "authService_logout n t w =
     response_data_of (apiMethods_post n t ''/auth/logout'' NoData None w)"

definition authService_refreshToken ::
  "nat \<Rightarrow> 'b transport \<Rightarrow> 'b world \<Rightarrow> (response_data promise \<times> 'b world) option" where
  "authService_refreshToken n t w =
     response_data_of (apiMethods_post n t ''/auth/refresh'' NoData None w)"

definition authService_verifyAuth ::
  "nat \<Rightarrow> 'b transport \<Rightarrow> 'b world \<Rightarrow> (bool promise \<times> 'b world) option" where
  "authService_verifyAuth n t w =
     (case apiMethods_post n t ''/auth/refresh'' NoData None w of
        None \<Rightarrow> None
      | Some (Resolved response, w') \<Rightarrow> Some (Resolved True, w')
      | Some (Rejected e, w') \<Rightarrow> Some (Resolved False, w'))"

definition digit :: "nat \<Rightarrow> char" where
  "digit d = ''0123456789'' ! d"

fun string_of_nat :: "nat \<Rightarrow> string" where
  \<comment> \<open>\<open>`${userId}`\<close> for a user id that is a natural number: its decimal digits.\<close>
  "string_of_nat n =
     (if n < 10 then [digit n] else string_of_nat (n div 10) @ [digit (n mod 10)])"

declare string_of_nat.simps [simp del]

definition authService_twoFactor_verify ::
  "nat \<Rightarrow> 'b transport \<Rightarrow> nat \<Rightarrow> payload \<Rightarrow> 'b world
     \<Rightarrow> (response_data promise \<times> 'b world) option" where
  "authService_twoFactor_verify n t userId d w =
     response_data_of
       (apiMethods_post n t (''/users/'' @ string_of_nat userId @ ''/2fa/verify'') d None w)"

definition authService_twoFactor_totp_verify ::
  "nat \<Rightarrow> 'b transport \<Rightarrow> nat \<Rightarrow> string \<Rightarrow> 'b world
     \<Rightarrow> (response_data promise \<times> 'b world) option" where
  "authService_twoFactor_totp_verify n t userId c w =
     response_data_of
       (apiMethods_post n t (''/users/'' @ string_of_nat userId @ ''/totp/verify'')
          (TOTPRequest c) None w)"

section \<open>The legacy auth context (mock)\<close>

definition verify2FA :: "string \<Rightarrow> bool" where
  \<comment> \<open>\<open>return code === '123456';\<close> The function has no access to the network.\<close>
  "verify2FA c = (c = ''123456'')"

section \<open>Error handling and mock users (apiConstants.ts, mockData.ts)\<close>

record APIError =
  api_status :: nat
  api_message :: string
  api_code :: "string option"
  api_details :: "response_data option"

definition or_else :: "string option \<Rightarrow> string \<Rightarrow> string" where
  \<comment> \<open>\<open>a || b\<close> for a string \<open>a\<close> that may be \<open>undefined\<close>: \<open>b\<close> when \<open>a\<close> is
     \<open>undefined\<close> or empty.\<close>
  "or_else a b = (case a of None \<Rightarrow> b | Some x \<Rightarrow> if x = [] then b else x)"

definition handleAPIError :: "thrown \<Rightarrow> APIError" where
  \<comment> \<open>The first branch is taken by an error that has a \<open>response\<close>; an axios error
     without one, a thrown response body and any other error take the second.\<close>
  "handleAPIError e =
     (case e of
        AxiosError cfg (Some r) \<Rightarrow>
          \<lparr> api_status = status r,
            api_message =
              or_else (message (data r)) (or_else (error (data r)) ''An error occurred''),
            api_code = code (data r),
            api_details = Some (data r) \<rparr>
      | _ \<Rightarrow>
          \<lparr> api_status = 0,
            api_message = ''Network error or unknown error occurred'',
            api_code = None,
            api_details = None \<rparr>)"

record User =
  user_id :: nat
  email :: string
  name :: string
  surname :: string
  totpEnabled :: bool

definition createMockUser :: "string \<Rightarrow> string \<Rightarrow> string \<Rightarrow> User" where
  "createMockUser e nm sn =
     (if e \<noteq> [] \<and> nm \<noteq> [] \<and> sn \<noteq> [] then
        \<lparr> user_id = 1, email = e, name = nm, surname = sn, totpEnabled = False \<rparr>
      else
        \<lparr> user_id = 1, email = ''mario.rossi@example.com'', name = ''Mario'',
          surname = ''Rossi'', totpEnabled = False \<rparr>)"

definition getMockAuthenticatedUser :: User where
  "getMockAuthenticatedUser =
     \<lparr> user_id = 1, email = ''mario.rossi@example.com'', name = ''Mario'',
       surname = ''Rossi'', totpEnabled = False \<rparr>"

definition mockUsers :: "User list" where
  "mockUsers =
     [ \<lparr> user_id = 1, email = ''mario.rossi@example.com'', name = ''Mario'',
         surname = ''Rossi'', totpEnabled = False \<rparr>,
       \<lparr> user_id = 2, email = ''giulia.bianchi@example.com'', name = ''Giulia'',
         surname = ''Bianchi'', totpEnabled = True \<rparr>,
       \<lparr> user_id = 3, email = ''luca.verdi@example.com'', name = ''Luca'',
         surname = ''Verdi'', totpEnabled = False \<rparr> ]"

definition findMockUserByEmail :: "string \<Rightarrow> User option" where
  "findMockUserByEmail e = find (\<lambda>u. email u = e) mockUsers"

definition capitalize :: "string \<Rightarrow> string" where
  \<comment> \<open>\<open>s.charAt(0).toUpperCase() + s.slice(1)\<close>.\<close>
  "capitalize s = map toUpperCase_char (take 1 s) @ slice_from s 1"

definition userFromEmail :: "string \<Rightarrow> User" where
  \<comment> \<open>The mock user \<open>login\<close> builds from the address when no mock user has it.\<close>
  "userFromEmail e =
     (let p0 = split_first CHR ''.'' (split_first CHR ''@'' e);
          p1 = split_second CHR ''.'' (split_first CHR ''@'' e)
      in createMockUser e
           (if p0 \<noteq> [] then capitalize p0 else ''User'')
           (case p1 of
              None \<Rightarrow> ''Unknown''
            | Some x \<Rightarrow> if x \<noteq> [] then capitalize x else ''Unknown''))"

section \<open>The auth provider (AuthContext)\<close>

datatype toast = ToastSuccess string | ToastError string

record 'b auth_state =
  user :: "User option"
  isAuthenticated :: bool
  isLoading :: bool
  toasts :: "toast list"
  world :: "'b world"

record login_result =
  success :: bool
  requiresTOTP :: "bool option"
  result_error :: "string option"

definition checkAuth :: "nat \<Rightarrow> 'b transport \<Rightarrow> 'b auth_state \<Rightarrow> 'b auth_state option" where
  \<comment> \<open>The effect run on mount. \<open>None\<close>: the probe has not settled.\<close>
  "checkAuth n t st =
     (case authService_verifyAuth n t (world st) of
        None \<Rightarrow> None
      | Some (Resolved isValid, w') \<Rightarrow>
          Some (st\<lparr> world := w',
                    isAuthenticated := isValid,
                    user := (if isValid then Some getMockAuthenticatedUser else None),
                    isLoading := False \<rparr>)
      | Some (Rejected e, w') \<Rightarrow>
          Some (st\<lparr> world := w', isAuthenticated := False, user := None,
                    isLoading := False \<rparr>))"

definition login ::
  "nat \<Rightarrow> 'b transport \<Rightarrow> string \<Rightarrow> string \<Rightarrow> string option \<Rightarrow> 'b auth_state
     \<Rightarrow> (login_result \<times> 'b auth_state) option" where
  "login n t e password totpCode st =
     (case authService_login n t (LoginRequest e password totpCode) (world st) of
        None \<Rightarrow> None
      | Some (Resolved result, w') \<Rightarrow>
          if totp_required result = Some True then
            Some (\<lparr> success = False, requiresTOTP = Some True,
                     result_error = Some ''TOTP code required'' \<rparr>,
                  st\<lparr>world := w'\<rparr>)
          else
            (let userData =
                   (case findMockUserByEmail e of Some u \<Rightarrow> u | None \<Rightarrow> userFromEmail e);
                 userData' =
                   (if totpCode \<noteq> None \<and> totpCode \<noteq> Some [] then userData\<lparr>totpEnabled := True\<rparr>
                    else userData)
             in Some (\<lparr> success = True, requiresTOTP = None, result_error = None \<rparr>,
                      st\<lparr> world := w', isAuthenticated := True, user := Some userData',
                          toasts := toasts st @ [ToastSuccess ''Login completato con successo''] \<rparr>))
      | Some (Rejected err, w') \<Rightarrow>
          (let apiError = handleAPIError err in
           if api_status apiError = 423 then
             Some (\<lparr> success = False, requiresTOTP = None,
                      result_error =
                        Some ''Account temporarily locked due to too many failed attempts'' \<rparr>,
                   st\<lparr>world := w'\<rparr>)
           else
             Some (\<lparr> success = False, requiresTOTP = None,
                      result_error = Some (or_else (Some (api_message apiError)) ''Login failed'') \<rparr>,
                   st\<lparr>world := w'\<rparr>)))"


definition logout :: "nat \<Rightarrow> 'b transport \<Rightarrow> 'b auth_state \<Rightarrow> 'b auth_state option" where
  \<comment> \<open>\<open>try { await authService.logout() } catch { } finally { ... }\<close>: both outcomes
     of the call reach the \<open>finally\<close> block.\<close>
  "logout n t st =
     (case authService_logout n t (world st) of
        None \<Rightarrow> None
      | Some (outcome, w') \<Rightarrow>
          Some (st\<lparr> user := None, isAuthenticated := False,
                    world := tokenUtils_clearAuthTokens w',
                    toasts := toasts st @ [ToastSuccess ''Logged out successfully''] \<rparr>))"


section \<open>The refresh timer of the auth provider\<close>

text \<open>
  The provider's second effect depends on \<open>isAuthenticated\<close>. The component state below
  adds to the provider's state what the effect acts on: the live intervals of the window
  (handle and delay in milliseconds; the only callback in the provider is
  \<open>refreshToken\<close>), the value of the dependency the effect last ran with, and the handle
  its cleanup function will clear. \<open>timer_refreshes\<close> records, for every call of
  \<open>refreshToken\<close> an interval made, the value of \<open>isAuthenticated\<close> at the call.

  \<open>commit\<close> is React's rule for an effect with a dependency list: after a render in which
  the dependency changed (or the first render), the previous cleanup runs, then the effect
  body. \<open>Act f\<close> is any handler that changes the provider's state (a login, a logout, a
  failed refresh), followed by the render it causes; \<open>Fire h\<close> is the runtime calling the
  callback of interval \<open>h\<close>, which happens only while \<open>h\<close> is live. That an interval with
  delay \<open>d\<close> is called every \<open>d\<close> milliseconds is the runtime's contract and outside the
  model.
\<close>

record 'b component =
  auth :: "'b auth_state"
  intervals :: "(nat \<times> nat) list"
  next_handle :: nat
  effect_dep :: "bool option"
  effect_cleanup :: "nat option"
  timer_refreshes :: "bool list"









text \<open>
  The invariant of the timer: the effect has run with the present value of
  \<open>isAuthenticated\<close>; when that value is true exactly one interval is live, with the
  delay of the source, and it is the one the cleanup will clear; when it is false none is;
  and no timer has called \<open>refreshToken\<close> while \<open>isAuthenticated\<close> was false.
\<close>

definition timer_ok :: "bool \<Rightarrow> 'b component \<Rightarrow> bool" where
  "timer_ok b c =
     (if b then
        (case effect_cleanup c of
           None \<Rightarrow> False
         | Some h \<Rightarrow> intervals c = [(h, 14 * 60 * 1000)])
      else intervals c = [] \<and> effect_cleanup c = None)"


section \<open>Observations used to state the properties\<close>

definition sent_by :: "request \<Rightarrow> request set" where
  \<comment> \<open>The requests a call for \<open>req\<close> can put on the wire: \<open>req\<close>, its retry, the
     refresh and the refresh's retry.\<close>
  "sent_by req = {req, req\<lparr>retry := True\<rparr>, refresh_request, refresh_request\<lparr>retry := True\<rparr>}"

definition is_resolved :: "'a promise \<Rightarrow> bool" where
  \<comment> \<open>Whether an awaited call returned (and did not throw).\<close>
  "is_resolved p = (case p of Resolved x \<Rightarrow> True | Rejected e \<Rightarrow> False)"

definition password_of :: "payload \<Rightarrow> string option" where
  \<comment> \<open>The \<open>password\<close> field of a request body, when it has one.\<close>
  "password_of d =
     (case d of
        LoginRequest e p c \<Rightarrow> Some p
      | RegisterRequest e p nm sn \<Rightarrow> Some p
      | _ \<Rightarrow> None)"

definition passwords_sent :: "(request \<times> wire_result) list \<Rightarrow> string list" where
  \<comment> \<open>The passwords a list of exchanges carried, in order.\<close>
  "passwords_sent xs = List.map_filter (\<lambda>x. password_of (req_data (fst x))) xs"



section \<open>Concrete backends for the witnesses and counterexamples\<close>

text \<open>
  The backend state of the examples is one boolean: whether the access token is fresh.
  \<open>demo_backend\<close> renews it on \<open>/auth/refresh\<close> and on a successful login, answers the
  login by the address and password it is sent, knows one TOTP code of user 7, refuses
  \<open>/admin\<close> always and any other request while the token is stale. \<open>refresh_down\<close>
  fails every refresh with status 500 and everything else with 401; \<open>offline\<close> gives no
  response at all; \<open>no_session\<close> answers every request with 401.
\<close>

definition no_data :: response_data where
  "no_data =
     \<lparr> error = None, message = None, code = None, totp_required = None,
       locked_until = None, access_token = None, verified = None, valid = None \<rparr>"

definition reply :: "nat \<Rightarrow> response" where
  "reply s = \<lparr> status = s, data = no_data \<rparr>"

definition world0 :: "bool world" where
  \<comment> \<open>Nothing sent yet, a stale token, no cookie visible to the page.\<close>
  "world0 = \<lparr> server = False, wire = [], document_cookie = [] \<rparr>"

definition state0 :: "bool auth_state" where
  \<comment> \<open>The provider's initial state: \<open>useState(null)\<close>, \<open>useState(false)\<close>,
     \<open>useState(true)\<close>.\<close>
  "state0 = \<lparr> user = None, isAuthenticated = False, isLoading = True, toasts = [], world = world0 \<rparr>"

definition signed_in :: "bool auth_state" where
  "signed_in = state0\<lparr> user := Some getMockAuthenticatedUser, isAuthenticated := True, isLoading := False \<rparr>"

definition demo_backend :: "bool transport" where
  "demo_backend fresh req =
     (if url req = ''/auth/refresh'' then (Fulfilled (reply 200), True)
      else if url req = ''/auth/logout'' then (Fulfilled (reply 200), False)
      else if url req = ''/auth/register'' then (Fulfilled (reply 201), fresh)
      else if url req = ''/auth/login'' then
        (case req_data req of
           LoginRequest e p c \<Rightarrow>
             if e = ''locked@example.com'' then
               (Failed (Some \<lparr> status = 423,
                   data = no_data\<lparr> error := Some ''account locked'',
                                   locked_until := Some ''2030-01-01T00:00:00Z'' \<rparr> \<rparr>), fresh)
             else if e = ''totp@example.com'' \<and> c = None then
               (Failed (Some \<lparr> status = 422,
                   data = no_data\<lparr> error := Some ''TOTP code required'',
                                   totp_required := Some True \<rparr> \<rparr>), fresh)
             else if e = ''not-an-address'' then
               (Failed (Some \<lparr> status = 422,
                   data = no_data\<lparr> error := Some ''invalid email'',
                                   totp_required := Some False \<rparr> \<rparr>), fresh)
             else if p = ''S3cret!pw'' then
               (Fulfilled \<lparr> status = 200, data = no_data\<lparr>access_token := Some ''t1''\<rparr> \<rparr>, True)
             else (Failed (Some (reply 400)), fresh)
         | _ \<Rightarrow> (Failed (Some (reply 400)), fresh))
      else if url req = ''/users/7/totp/verify'' then
        (Fulfilled \<lparr> status = 200,
            data = no_data\<lparr>valid := Some (req_data req = TOTPRequest ''492817'')\<rparr> \<rparr>, fresh)
      else if url req = ''/admin'' then (Failed (Some (reply 401)), fresh)
      else if fresh then (Fulfilled (reply 200), fresh)
      else (Failed (Some (reply 401)), fresh))"

definition refresh_down :: "bool transport" where
  "refresh_down fresh req =
     (if url req = ''/auth/refresh'' then (Failed (Some (reply 500)), fresh)
      else (Failed (Some (reply 401)), fresh))"

definition offline :: "bool transport" where
  "offline fresh req = (Failed None, fresh)"

definition no_session :: "bool transport" where
  "no_session fresh req = (Failed (Some (reply 401)), fresh)"


section \<open>Lemmas and theorems\<close>

subsection \<open>Masking of sensitive values\<close>

lemma length_substring0: "length (substring v 0 k) = min k (length v)"
  by (simp add: substring_def min_def)

lemma length_slice_last: "length (slice_last v k) = min k (length v)"
  by (simp add: slice_last_def min_def)

lemma mask_iban_legacy_longer:
  "length (maskSensitiveValue_legacy v ''iban'') = min 8 (length v) + 16 + min 4 (length v)"
  by (simp add: maskSensitiveValue_legacy_def length_substring0 length_slice_last)

lemma mask_fiscal_legacy_longer:
  "length (maskSensitiveValue_legacy v ''codice_fiscale'')
     = min 3 (length v) + 3 + min 3 (length v)"
  by (simp add: maskSensitiveValue_legacy_def length_substring0 length_slice_last)

text \<open>
  C10, as stated, fails: on a value of at most 8 characters the current editor shows the
  IBAN unchanged while the legacy editor still builds prefix, mask and suffix, and the
  same holds for a fiscal code of at most 6 characters. The values here are \<open>ABC\<close> and
  \<open>ABCDEF\<close>.
\<close>

theorem C10_mask_short_counterexample:
  "maskSensitiveValue ''ABC'' ''iban'' \<noteq> maskSensitiveValue_legacy ''ABC'' ''iban'' \<and>
   maskSensitiveValue ''ABC'' ''iban'' = ''ABC'' \<and>
   maskSensitiveValue_legacy ''ABC'' ''iban'' = ''ABC **** **** **** ABC'' \<and>
   maskSensitiveValue ''ABCDEF'' ''fiscal_code'' = ''ABCDEF'' \<and>
   maskSensitiveValue_legacy ''ABCDEF'' ''codice_fiscale'' = ''ABC***DEF''"
  by (simp add: maskSensitiveValue_def maskSensitiveValue_legacy_def substring_def
      slice_last_def)

text \<open>
  C10, amended: the current and the legacy masking function return the same string
  exactly for the values longer than 8 characters (IBAN) and longer than 6 characters
  (fiscal code, named \<open>fiscal_code\<close> in the current editor and \<open>codice_fiscale\<close> in the
  legacy one); on every shorter value they differ.
\<close>

theorem C10_mask_equivalent_iff_long:
  "((maskSensitiveValue v ''iban'' = maskSensitiveValue_legacy v ''iban'') = (8 < length v)) \<and>
   ((maskSensitiveValue v ''fiscal_code'' = maskSensitiveValue_legacy v ''codice_fiscale'')
     = (6 < length v))"
proof
  show "(maskSensitiveValue v ''iban'' = maskSensitiveValue_legacy v ''iban'') = (8 < length v)"
  proof (cases "8 < length v")
    case True
    then show ?thesis
      by (simp add: maskSensitiveValue_def maskSensitiveValue_legacy_def)
  next
    case False
    then have cur: "maskSensitiveValue v ''iban'' = v"
      by (simp add: maskSensitiveValue_def)
    have "length (maskSensitiveValue_legacy v ''iban'') \<noteq> length v"
      using False by (simp add: mask_iban_legacy_longer)
    then have "maskSensitiveValue_legacy v ''iban'' \<noteq> v" by auto
    with cur False show ?thesis by simp
  qed
  show "(maskSensitiveValue v ''fiscal_code'' = maskSensitiveValue_legacy v ''codice_fiscale'')
     = (6 < length v)"
  proof (cases "6 < length v")
    case True
    then show ?thesis
      by (simp add: maskSensitiveValue_def maskSensitiveValue_legacy_def)
  next
    case False
    then have cur: "maskSensitiveValue v ''fiscal_code'' = v"
      by (simp add: maskSensitiveValue_def)
    have "length (maskSensitiveValue_legacy v ''codice_fiscale'') \<noteq> length v"
      using False by (simp add: mask_fiscal_legacy_longer)
    then have "maskSensitiveValue_legacy v ''codice_fiscale'' \<noteq> v" by auto
    with cur False show ?thesis by simp
  qed
qed

text \<open>The amended C10 at the two mock values of the legacy editor, spaces removed.\<close>

theorem C10_mask_equivalent_witness:
  "maskSensitiveValue ''IT60X0542811101000000123456'' ''iban''
     = maskSensitiveValue_legacy ''IT60X0542811101000000123456'' ''iban'' \<and>
   maskSensitiveValue ''RSSMRA80A01H501U'' ''fiscal_code''
     = maskSensitiveValue_legacy ''RSSMRA80A01H501U'' ''codice_fiscale''"
  using C10_mask_equivalent_iff_long [of "''IT60X0542811101000000123456''"]
    C10_mask_equivalent_iff_long [of "''RSSMRA80A01H501U''"]
  by simp

subsection \<open>Token utilities\<close>


subsection \<open>The response interceptor\<close>

text \<open>One step of \<open>api\<close>, by what the transport answers.\<close>

lemma api_Suc_Fulfilled:
  assumes "t (server w) req = (Fulfilled r, sv)"
  shows "api (Suc n) t req w = Some (Resolved r, w\<lparr>server := sv, wire := wire w @ [(req, Fulfilled r)]\<rparr>)"
  using assms by (simp add: Let_def)

lemma api_Suc_reject:
  assumes "t (server w) req = (Failed ro, sv)"
    and "response_status ro \<noteq> Some 401 \<or> retry req"
  shows "api (Suc n) t req w =
     Some (Rejected (AxiosError req ro), w\<lparr>server := sv, wire := wire w @ [(req, Failed ro)]\<rparr>)"
  using assms by (auto simp add: Let_def)

lemma api_Suc_refresh:
  assumes "t (server w) req = (Failed ro, sv)"
    and "response_status ro = Some 401" and "\<not> retry req"
  shows "api (Suc n) t req w =
     (case api n t refresh_request (w\<lparr>server := sv, wire := wire w @ [(req, Failed ro)]\<rparr>) of
        None \<Rightarrow> None
      | Some (Resolved r', w2) \<Rightarrow> api n t (req\<lparr>retry := True\<rparr>) w2
      | Some (Rejected refreshError, w2) \<Rightarrow>
          Some (Rejected (AxiosError (req\<lparr>retry := True\<rparr>) ro), tokenUtils_clearAuthTokens w2))"
  using assms by (simp add: Let_def)

declare api.simps [simp del]

lemma api_zero [simp]: "api 0 t req w = None"
  by (simp add: api.simps)

text \<open>
  What a settled call has put on the wire: the request first, then only its retry, the
  refresh and the refresh's retry; the cookie is untouched.
\<close>

lemma sent_by_retry: "sent_by (req\<lparr>retry := True\<rparr>) \<subseteq> sent_by req"
  by (auto simp: sent_by_def)

lemma sent_by_refresh: "sent_by refresh_request \<subseteq> sent_by req"
  by (auto simp: sent_by_def)

lemma api_wire:
  "api n t req w = Some (p, w') \<Longrightarrow>
     \<exists>res rest. wire w' = wire w @ (req, res) # rest \<and> fst ` set rest \<subseteq> sent_by req
       \<and> document_cookie w' = document_cookie w"
proof (induction n arbitrary: req w p w')
  case 0
  then show ?case by simp
next
  case (Suc n)
  obtain res sv where tr: "t (server w) req = (res, sv)" by (cases "t (server w) req")
  show ?case
  proof (cases res)
    case (Fulfilled r)
    with Suc.prems tr show ?thesis by (auto simp add: api_Suc_Fulfilled)
  next
    case (Failed ro)
    show ?thesis
    proof (cases "response_status ro = Some 401 \<and> \<not> retry req")
      case False
      then have c: "response_status ro \<noteq> Some 401 \<or> retry req" by blast
      from Suc.prems tr Failed show ?thesis by (auto simp add: api_Suc_reject [OF _ c])
    next
      case True
      let ?w1 = "w\<lparr>server := sv, wire := wire w @ [(req, Failed ro)]\<rparr>"
      have unf: "api (Suc n) t req w =
         (case api n t refresh_request ?w1 of
            None \<Rightarrow> None
          | Some (Resolved r', w2) \<Rightarrow> api n t (req\<lparr>retry := True\<rparr>) w2
          | Some (Rejected refreshError, w2) \<Rightarrow>
              Some (Rejected (AxiosError (req\<lparr>retry := True\<rparr>) ro), tokenUtils_clearAuthTokens w2))"
        using tr Failed True by (intro api_Suc_refresh) auto
      from Suc.prems obtain q w2 where
        rf: "api n t refresh_request ?w1 = Some (q, w2)"
        by (auto simp: unf split: option.splits)
      from Suc.IH [OF rf] obtain res1 rest1 where
        w2: "wire w2 = wire ?w1 @ (refresh_request, res1) # rest1"
          "fst ` set rest1 \<subseteq> sent_by refresh_request"
          "document_cookie w2 = document_cookie ?w1"
        by blast
      show ?thesis
      proof (cases q)
        case (Rejected e)
        with Suc.prems rf have "w' = tokenUtils_clearAuthTokens w2" by (simp add: unf)
        then have "wire w' = wire w @ (req, Failed ro) # (refresh_request, res1) # rest1"
          "document_cookie w' = document_cookie w"
          using w2 by (simp_all add: tokenUtils_clearAuthTokens_def)
        moreover have "fst ` set ((refresh_request, res1) # rest1) \<subseteq> sent_by req"
          using w2(2) sent_by_refresh [of req] by (auto simp: sent_by_def)
        ultimately show ?thesis by blast
      next
        case (Resolved r')
        with Suc.prems rf
        have "api n t (req\<lparr>retry := True\<rparr>) w2 = Some (p, w')" by (simp add: unf)
        from Suc.IH [OF this] obtain res2 rest2 where
          w': "wire w' = wire w2 @ (req\<lparr>retry := True\<rparr>, res2) # rest2"
            "fst ` set rest2 \<subseteq> sent_by (req\<lparr>retry := True\<rparr>)"
            "document_cookie w' = document_cookie w2"
          by blast
        have "wire w' = wire w @ (req, Failed ro) #
            ((refresh_request, res1) # rest1 @ (req\<lparr>retry := True\<rparr>, res2) # rest2)"
          using w2 w' by simp
        moreover have "fst ` set ((refresh_request, res1) # rest1 @ (req\<lparr>retry := True\<rparr>, res2) # rest2)
            \<subseteq> sent_by req"
          using w2(2) w'(2) sent_by_refresh [of req] sent_by_retry [of req]
          by (auto simp: sent_by_def)
        moreover have "document_cookie w' = document_cookie w" using w2 w' by simp
        ultimately show ?thesis by blast
      qed
    qed
  qed
qed

text \<open>A request that carries the flag is sent once and its result is final.\<close>

lemma api_retry_set:
  assumes "retry req" and "t (server w) req = (res, sv)"
  shows "api (Suc n) t req w =
     Some (case res of Fulfilled r \<Rightarrow> Resolved r | Failed ro \<Rightarrow> Rejected (AxiosError req ro),
           w\<lparr>server := sv, wire := wire w @ [(req, res)]\<rparr>)"
  using assms by (cases res) (simp_all add: api_Suc_Fulfilled api_Suc_reject)

text \<open>A resolved call returns the response of the last exchange on the wire.\<close>

lemma api_resolved_last:
  "api n t req w = Some (Resolved r, w') \<Longrightarrow>
     \<exists>rq. wire w' \<noteq> [] \<and> last (wire w') = (rq, Fulfilled r) \<and> (rq = req \<or> rq = req\<lparr>retry := True\<rparr>)"
proof (induction n arbitrary: req w w')
  case 0
  then show ?case by simp
next
  case (Suc n)
  obtain res sv where tr: "t (server w) req = (res, sv)" by (cases "t (server w) req")
  show ?case
  proof (cases res)
    case (Fulfilled r0)
    with Suc.prems tr show ?thesis by (auto simp add: api_Suc_Fulfilled)
  next
    case (Failed ro)
    show ?thesis
    proof (cases "response_status ro = Some 401 \<and> \<not> retry req")
      case False
      then have c: "response_status ro \<noteq> Some 401 \<or> retry req" by blast
      from Suc.prems tr Failed show ?thesis by (auto simp add: api_Suc_reject [OF _ c])
    next
      case True
      let ?w1 = "w\<lparr>server := sv, wire := wire w @ [(req, Failed ro)]\<rparr>"
      have unf: "api (Suc n) t req w =
         (case api n t refresh_request ?w1 of
            None \<Rightarrow> None
          | Some (Resolved r', w2) \<Rightarrow> api n t (req\<lparr>retry := True\<rparr>) w2
          | Some (Rejected refreshError, w2) \<Rightarrow>
              Some (Rejected (AxiosError (req\<lparr>retry := True\<rparr>) ro), tokenUtils_clearAuthTokens w2))"
        using tr Failed True by (intro api_Suc_refresh) auto
      from Suc.prems obtain r' w2 where
        "api n t refresh_request ?w1 = Some (Resolved r', w2)"
        "api n t (req\<lparr>retry := True\<rparr>) w2 = Some (Resolved r, w')"
        by (auto simp: unf split: option.splits promise.splits)
      from Suc.IH [OF this(2)] show ?thesis by auto
    qed
  qed
qed

text \<open>A refresh that is answered 401 whatever the backend state settles at no depth.\<close>

lemma refresh_never_settles:
  assumes "\<And>sv. \<exists>r sv'. t sv refresh_request = (Failed (Some r), sv') \<and> status r = 401"
  shows "api n t refresh_request w = None"
proof (induction n arbitrary: w)
  case 0
  show ?case by simp
next
  case (Suc n)
  from assms [of "server w"] obtain r sv' where
    tr: "t (server w) refresh_request = (Failed (Some r), sv')" and "status r = 401" by blast
  then have "response_status (Some r) = Some 401" by (simp add: response_status_def)
  moreover have "\<not> retry refresh_request" by (simp add: refresh_request_def axios_request_def)
  ultimately show ?case using tr Suc.IH by (simp add: api_Suc_refresh)
qed

text \<open>
  At the backend \<open>no_session\<close>, which answers every request with 401, no request that
  does not yet carry the flag settles: its refresh never does.
\<close>

lemma no_session_never_settles:
  assumes "\<not> retry req"
  shows "api n no_session req w = None"
proof (cases n)
  case 0
  then show ?thesis by simp
next
  case (Suc m)
  have r: "\<And>w. api m no_session refresh_request w = None"
    by (rule refresh_never_settles) (simp add: no_session_def reply_def)
  have "no_session (server w) req = (Failed (Some (reply 401)), server w)"
    by (simp add: no_session_def)
  moreover have "response_status (Some (reply 401)) = Some 401"
    by (simp add: response_status_def reply_def)
  ultimately show ?thesis
    using assms r unfolding Suc by (simp add: api_Suc_refresh)
qed

text \<open>
  The bound is only a bound: a call that settles within depth \<open>n\<close> settles the same
  way within any larger depth.
\<close>

lemma api_fuel_mono: "api n t req w = Some x \<Longrightarrow> api (n + k) t req w = Some x"
proof (induction n arbitrary: req w x)
  case 0
  then show ?case by simp
next
  case (Suc n)
  obtain res sv where tr: "t (server w) req = (res, sv)" by (cases "t (server w) req")
  show ?case
  proof (cases res)
    case (Fulfilled r)
    with Suc.prems tr show ?thesis by (simp add: api_Suc_Fulfilled)
  next
    case (Failed ro)
    show ?thesis
    proof (cases "response_status ro = Some 401 \<and> \<not> retry req")
      case False
      then have c: "response_status ro \<noteq> Some 401 \<or> retry req" by blast
      from Suc.prems tr Failed show ?thesis by (simp add: api_Suc_reject [OF _ c])
    next
      case True
      let ?w1 = "w\<lparr>server := sv, wire := wire w @ [(req, Failed ro)]\<rparr>"
      have unf: "\<And>m. api (Suc m) t req w =
         (case api m t refresh_request ?w1 of
            None \<Rightarrow> None
          | Some (Resolved r', w2) \<Rightarrow> api m t (req\<lparr>retry := True\<rparr>) w2
          | Some (Rejected refreshError, w2) \<Rightarrow>
              Some (Rejected (AxiosError (req\<lparr>retry := True\<rparr>) ro), tokenUtils_clearAuthTokens w2))"
        using tr Failed True by (intro api_Suc_refresh) auto
      from Suc.prems obtain p w2 where
        rf: "api n t refresh_request ?w1 = Some (p, w2)"
        by (auto simp: unf split: option.splits)
      from Suc.IH [OF rf] have rf': "api (n + k) t refresh_request ?w1 = Some (p, w2)" .
      show ?thesis
      proof (cases p)
        case (Resolved r')
        with Suc.prems rf
        have "api n t (req\<lparr>retry := True\<rparr>) w2 = Some x" by (simp add: unf)
        from Suc.IH [OF this] show ?thesis using rf' Resolved by (simp add: unf)
      next
        case (Rejected e)
        with Suc.prems rf rf' show ?thesis by (simp add: unf)
      qed
    qed
  qed
qed

text \<open>The equations that evaluate the model on the concrete backends.\<close>

lemmas demo_simps = axios_request_def from_config_def api_config_def refresh_request_def
  reply_def no_data_def world0_def state0_def signed_in_def response_status_def
  tokenUtils_clearAuthTokens_def apiMethods_post_def apiMethods_get_def


lemma string_of_nat_7: "string_of_nat 7 = ''7''"
  by (simp add: string_of_nat.simps digit_def)

lemma refresh_request_not_retried: "\<not> retry refresh_request"
  by (simp add: refresh_request_def axios_request_def)

text \<open>
  C1, amended: when a request whose \<open>_retry\<close> flag is unset fails with status 401, the
  interceptor sets the flag and awaits \<open>authService.refreshToken()\<close>, itself a request
  through the same instance. If the refresh resolves, the original request is re-issued
  exactly once, with the flag set, and the outcome of that one exchange is the outcome of
  the call: a second 401 is rejected to the caller and nothing more is sent. If the
  refresh is rejected, the original request is not re-issued and its 401 error is
  rejected. If the refresh does not settle, neither does the call.
\<close>

theorem C1_refresh_then_retry_once:
  assumes "\<not> retry req"
    and "t (server w) req = (Failed ro, sv)"
    and "response_status ro = Some 401"
  shows "api (Suc n) t req w =
     (case authService_refreshToken n t (w\<lparr>server := sv, wire := wire w @ [(req, Failed ro)]\<rparr>) of
        None \<Rightarrow> None
      | Some (Rejected refreshError, w2) \<Rightarrow>
          Some (Rejected (AxiosError (req\<lparr>retry := True\<rparr>) ro), w2)
      | Some (Resolved d, w2) \<Rightarrow>
          (case t (server w2) (req\<lparr>retry := True\<rparr>) of
             (Fulfilled r, sv3) \<Rightarrow>
               Some (Resolved r,
                     w2\<lparr>server := sv3,
                        wire := wire w2 @ [(req\<lparr>retry := True\<rparr>, Fulfilled r)]\<rparr>)
           | (Failed ro3, sv3) \<Rightarrow>
               Some (Rejected (AxiosError (req\<lparr>retry := True\<rparr>) ro3),
                     w2\<lparr>server := sv3,
                        wire := wire w2 @ [(req\<lparr>retry := True\<rparr>, Failed ro3)]\<rparr>)))"
proof -
  let ?w1 = "w\<lparr>server := sv, wire := wire w @ [(req, Failed ro)]\<rparr>"
  let ?req' = "req\<lparr>retry := True\<rparr>"
  have unf: "api (Suc n) t req w =
     (case api n t refresh_request ?w1 of
        None \<Rightarrow> None
      | Some (Resolved r', w2) \<Rightarrow> api n t ?req' w2
      | Some (Rejected refreshError, w2) \<Rightarrow>
          Some (Rejected (AxiosError ?req' ro), tokenUtils_clearAuthTokens w2))"
    using assms by (intro api_Suc_refresh) auto
  have rt: "authService_refreshToken n t ?w1 = response_data_of (api n t refresh_request ?w1)"
    by (simp add: authService_refreshToken_def apiMethods_post_def refresh_request_def)
  show ?thesis
  proof (cases "api n t refresh_request ?w1")
    case None
    then show ?thesis by (simp add: unf rt response_data_of_def)
  next
    case (Some x)
    obtain q w2 where x: "x = (q, w2)" by (cases x)
    from Some have "n \<noteq> 0" by (cases n) auto
    then obtain m where n: "n = Suc m" by (cases n) auto
    show ?thesis
    proof (cases q)
      case (Rejected e)
      with Some x show ?thesis
        by (simp add: unf rt response_data_of_def tokenUtils_clearAuthTokens_def)
    next
      case (Resolved r')
      obtain res3 sv3 where t3: "t (server w2) ?req' = (res3, sv3)"
        by (cases "t (server w2) ?req'")
      have "api n t ?req' w2 =
          Some (case res3 of Fulfilled r \<Rightarrow> Resolved r
                 | Failed ro3 \<Rightarrow> Rejected (AxiosError ?req' ro3),
                w2\<lparr>server := sv3, wire := wire w2 @ [(?req', res3)]\<rparr>)"
        unfolding n by (rule api_retry_set) (simp_all add: t3)
      with Some x Resolved t3 show ?thesis
        by (cases res3) (simp_all add: unf rt response_data_of_def)
    qed
  qed
qed

lemmas eval_simps = api.simps Let_def demo_simps

text \<open>
  The amended C1 at a backend that answers \<open>/admin\<close> with 401 whatever the token: the
  request fails, the refresh succeeds, the request is sent once more with the flag set,
  fails with 401 again and is rejected; the wire shows three exchanges and no second
  refresh.
\<close>

theorem C1_retry_once_witness:
  "api (Suc (Suc 0)) demo_backend (axios_request GET ''/admin'' NoData None) world0 =
     Some (Rejected (AxiosError ((axios_request GET ''/admin'' NoData None)\<lparr>retry := True\<rparr>)
                      (Some (reply 401))),
           \<lparr> server = True,
             wire = [(axios_request GET ''/admin'' NoData None, Failed (Some (reply 401))),
                     (refresh_request, Fulfilled (reply 200)),
                     ((axios_request GET ''/admin'' NoData None)\<lparr>retry := True\<rparr>,
                      Failed (Some (reply 401)))],
             document_cookie = [] \<rparr>)"
  using C1_refresh_then_retry_once
    [of "axios_request GET ''/admin'' NoData None" demo_backend world0 "Some (reply 401)" False "Suc 0"]
  by (simp add: eval_simps demo_backend_def authService_refreshToken_def response_data_of_def)

text \<open>
  C1, as stated, fails: at a backend that answers 401 to the request and 500 to the
  refresh, the request whose flag was unset is not re-issued at all. The wire shows the
  request and the refresh, and the caller gets the first 401.
\<close>

theorem C1_refresh_fails_counterexample:
  "api (Suc (Suc 0)) refresh_down (axios_request GET ''/profile'' NoData None) world0 =
     Some (Rejected (AxiosError ((axios_request GET ''/profile'' NoData None)\<lparr>retry := True\<rparr>)
                      (Some (reply 401))),
           \<lparr> server = False,
             wire = [(axios_request GET ''/profile'' NoData None, Failed (Some (reply 401))),
                     (refresh_request, Failed (Some (reply 500)))],
             document_cookie = [] \<rparr>)"
  by (simp add: eval_simps refresh_down_def)

subsection \<open>The probe on mount\<close>

text \<open>
  C2 says that \<open>authService.verifyAuth\<close> returns false, and never throws, on any
  failure of the refresh, and that the provider then sets \<open>isAuthenticated\<close> to false
  and \<open>user\<close> to null. The code does not do so when the failure is a 401. At the
  backend \<open>no_session\<close>, which answers every request with 401 (a visitor without a
  session), the probe's \<open>POST /auth/refresh\<close> is intercepted, the interceptor awaits a
  new refresh, which is intercepted in turn, without end: at no depth of the recursion
  does \<open>verifyAuth\<close> return, and \<open>checkAuth\<close> never sets \<open>isAuthenticated\<close>, \<open>user\<close>
  or \<open>isLoading\<close>.
\<close>

theorem C2_probe_never_returns_on_401:
  "authService_verifyAuth n no_session world0 = None \<and> checkAuth n no_session state0 = None"
proof -
  have "\<And>w. api n no_session refresh_request w = None"
    by (rule no_session_never_settles) (rule refresh_request_not_retried)
  then show ?thesis
    by (simp add: authService_verifyAuth_def checkAuth_def apiMethods_post_def
        refresh_request_def)
qed

text \<open>
  What the probe does once its call has settled: \<open>verifyAuth\<close> resolves, never rejects,
  with true when the call resolved and with false when it was rejected, and \<open>checkAuth\<close>
  sets \<open>isAuthenticated\<close> to that boolean, \<open>user\<close> to the mock user or to null, and
  \<open>isLoading\<close> to false.
\<close>

lemma verifyAuth_probe_settled:
  assumes "apiMethods_post n t ''/auth/refresh'' NoData None (world st) = Some (p, w')"
  shows "authService_verifyAuth n t (world st) = Some (Resolved (is_resolved p), w') \<and>
         checkAuth n t st =
           Some (st\<lparr> world := w', isAuthenticated := is_resolved p,
                     user := (if is_resolved p then Some getMockAuthenticatedUser else None),
                     isLoading := False \<rparr>) \<and>
         (\<exists>res rest. wire w' = wire (world st) @ (refresh_request, res) # rest)"
proof -
  have v: "authService_verifyAuth n t (world st) = Some (Resolved (is_resolved p), w')"
    using assms by (cases p) (simp_all add: authService_verifyAuth_def is_resolved_def)
  then have c: "checkAuth n t st =
           Some (st\<lparr> world := w', isAuthenticated := is_resolved p,
                     user := (if is_resolved p then Some getMockAuthenticatedUser else None),
                     isLoading := False \<rparr>)"
    by (simp add: checkAuth_def)
  from assms have "api n t refresh_request (world st) = Some (p, w')"
    by (simp add: apiMethods_post_def refresh_request_def)
  from api_wire [OF this] have "\<exists>res rest. wire w' = wire (world st) @ (refresh_request, res) # rest"
    by blast
  with v c show ?thesis by blast
qed

text \<open>
  The settled probe at a backend that accepts the refresh and at a network that is down
  (from a signed-in state).
\<close>

lemma verifyAuth_probe_settled_example:
  "map_option (\<lambda>s. (isAuthenticated s, user s, isLoading s)) (checkAuth (Suc 0) demo_backend state0)
     = Some (True, Some getMockAuthenticatedUser, False) \<and>
   map_option (\<lambda>s. (isAuthenticated s, user s, isLoading s)) (checkAuth (Suc 0) offline signed_in)
     = Some (False, None, False) \<and>
   map_option fst (authService_verifyAuth (Suc 0) offline world0) = Some (Resolved False)"
proof -
  have a: "apiMethods_post (Suc 0) demo_backend ''/auth/refresh'' NoData None (world state0)
      = Some (Resolved (reply 200), world0\<lparr>server := True, wire := [(refresh_request, Fulfilled (reply 200))]\<rparr>)"
    by (simp add: eval_simps demo_backend_def)
  have b: "apiMethods_post (Suc 0) offline ''/auth/refresh'' NoData None (world signed_in)
      = Some (Rejected (AxiosError refresh_request None), world0\<lparr>wire := [(refresh_request, Failed None)]\<rparr>)"
    by (simp add: eval_simps offline_def)
  from verifyAuth_probe_settled [OF a] verifyAuth_probe_settled [OF b]
  show ?thesis by (simp add: is_resolved_def signed_in_def state0_def)
qed

subsection \<open>Login outcomes\<close>

text \<open>
  What \<open>authService.login\<close> does with the outcomes of its \<open>POST /auth/login\<close>: a
  resolved call returns the response body; a rejection with a response of status 422
  returns that response's body as a normal value; a rejection with status 423 throws
  that response's body; every other error is re-thrown unchanged. The provider's
  \<open>login\<close> answers \<open>{ success: false, requiresTOTP: true }\<close> to a returned body whose
  \<open>totp_required\<close> field is true.
\<close>

lemma login_outcomes_by_answer:
  "(apiMethods_post n t ''/auth/login'' cred None w = Some (Resolved r, w') \<longrightarrow>
      authService_login n t cred w = Some (Resolved (data r), w')) \<and>
   (apiMethods_post n t ''/auth/login'' cred None w = Some (Rejected (AxiosError c (Some r)), w')
      \<and> status r = 422 \<longrightarrow>
      authService_login n t cred w = Some (Resolved (data r), w')) \<and>
   (apiMethods_post n t ''/auth/login'' cred None w = Some (Rejected (AxiosError c (Some r)), w')
      \<and> status r = 423 \<longrightarrow>
      authService_login n t cred w = Some (Rejected (ThrownData (data r)), w')) \<and>
   (apiMethods_post n t ''/auth/login'' cred None w = Some (Rejected err, w')
      \<and> (\<forall>c' r'. err = AxiosError c' (Some r') \<longrightarrow> status r' \<noteq> 422 \<and> status r' \<noteq> 423) \<longrightarrow>
      authService_login n t cred w = Some (Rejected err, w')) \<and>
   (authService_login n t (LoginRequest e pw tc) (world st) = Some (Resolved d, w')
      \<and> totp_required d = Some True \<longrightarrow>
      login n t e pw tc st =
        Some (\<lparr> success = False, requiresTOTP = Some True,
                 result_error = Some ''TOTP code required'' \<rparr>,
              st\<lparr>world := w'\<rparr>))"
proof (intro conjI impI)
  assume "apiMethods_post n t ''/auth/login'' cred None w = Some (Resolved r, w')"
  then show "authService_login n t cred w = Some (Resolved (data r), w')"
    by (simp add: authService_login_def)
next
  assume "apiMethods_post n t ''/auth/login'' cred None w = Some (Rejected (AxiosError c (Some r)), w')
      \<and> status r = 422"
  then show "authService_login n t cred w = Some (Resolved (data r), w')"
    by (simp add: authService_login_def)
next
  assume "apiMethods_post n t ''/auth/login'' cred None w = Some (Rejected (AxiosError c (Some r)), w')
      \<and> status r = 423"
  then show "authService_login n t cred w = Some (Rejected (ThrownData (data r)), w')"
    by (simp add: authService_login_def)
next
  assume a: "apiMethods_post n t ''/auth/login'' cred None w = Some (Rejected err, w')
      \<and> (\<forall>c' r'. err = AxiosError c' (Some r') \<longrightarrow> status r' \<noteq> 422 \<and> status r' \<noteq> 423)"
  show "authService_login n t cred w = Some (Rejected err, w')"
  proof (cases err)
    case (AxiosError c' ro)
    with a show ?thesis
      by (cases ro) (simp_all add: authService_login_def)
  next
    case (ThrownData x)
    with a show ?thesis by (simp add: authService_login_def)
  next
    case (Error x)
    with a show ?thesis by (simp add: authService_login_def)
  qed
next
  assume "authService_login n t (LoginRequest e pw tc) (world st) = Some (Resolved d, w')
      \<and> totp_required d = Some True"
  then show "login n t e pw tc st =
        Some (\<lparr> success = False, requiresTOTP = Some True,
                 result_error = Some ''TOTP code required'' \<rparr>,
              st\<lparr>world := w'\<rparr>)"
    by (simp add: login_def)
qed


text \<open>
  The same at a backend that accepts one login, asks another for a TOTP code with status
  422, answers a locked account with status 423, and at a network that is down.
\<close>

lemma login_outcomes_by_answer_example:
  "map_option fst (authService_login (Suc 0) demo_backend
       (LoginRequest ''luca.verdi@example.com'' ''S3cret!pw'' None) world0)
     = Some (Resolved (no_data\<lparr>access_token := Some ''t1''\<rparr>)) \<and>
   map_option fst (authService_login (Suc 0) demo_backend
       (LoginRequest ''totp@example.com'' ''S3cret!pw'' None) world0)
     = Some (Resolved (no_data\<lparr>error := Some ''TOTP code required'', totp_required := Some True\<rparr>)) \<and>
   map_option fst (authService_login (Suc 0) demo_backend
       (LoginRequest ''locked@example.com'' ''S3cret!pw'' None) world0)
     = Some (Rejected (ThrownData (no_data\<lparr>error := Some ''account locked'',
                                             locked_until := Some ''2030-01-01T00:00:00Z''\<rparr>))) \<and>
   map_option fst (authService_login (Suc 0) offline
       (LoginRequest ''luca.verdi@example.com'' ''S3cret!pw'' None) world0)
     = Some (Rejected (AxiosError
         (axios_request POST ''/auth/login''
            (LoginRequest ''luca.verdi@example.com'' ''S3cret!pw'' None) None) None)) \<and>
   map_option fst (login (Suc 0) demo_backend ''totp@example.com'' ''S3cret!pw'' None state0)
     = Some \<lparr> success = False, requiresTOTP = Some True,
              result_error = Some ''TOTP code required'' \<rparr>"
proof -
  let ?rq = "\<lambda>e. axios_request POST ''/auth/login'' (LoginRequest e ''S3cret!pw'' None) None"
  let ?ok = "\<lparr> status = 200, data = no_data\<lparr>access_token := Some ''t1''\<rparr> \<rparr>"
  let ?totp = "\<lparr> status = 422,
      data = no_data\<lparr>error := Some ''TOTP code required'', totp_required := Some True\<rparr> \<rparr>"
  let ?locked = "\<lparr> status = 423,
      data = no_data\<lparr>error := Some ''account locked'',
                      locked_until := Some ''2030-01-01T00:00:00Z''\<rparr> \<rparr>"
  have a: "apiMethods_post (Suc 0) demo_backend ''/auth/login''
        (LoginRequest ''luca.verdi@example.com'' ''S3cret!pw'' None) None world0
      = Some (Resolved ?ok,
              world0\<lparr>server := True, wire := [(?rq ''luca.verdi@example.com'', Fulfilled ?ok)]\<rparr>)"
    by (simp add: eval_simps demo_backend_def)
  have b: "apiMethods_post (Suc 0) demo_backend ''/auth/login''
        (LoginRequest ''totp@example.com'' ''S3cret!pw'' None) None world0
      = Some (Rejected (AxiosError (?rq ''totp@example.com'') (Some ?totp)),
              world0\<lparr>wire := [(?rq ''totp@example.com'', Failed (Some ?totp))]\<rparr>)"
    by (simp add: eval_simps demo_backend_def)
  have c: "apiMethods_post (Suc 0) demo_backend ''/auth/login''
        (LoginRequest ''locked@example.com'' ''S3cret!pw'' None) None world0
      = Some (Rejected (AxiosError (?rq ''locked@example.com'') (Some ?locked)),
              world0\<lparr>wire := [(?rq ''locked@example.com'', Failed (Some ?locked))]\<rparr>)"
    by (simp add: eval_simps demo_backend_def)
  have d: "apiMethods_post (Suc 0) offline ''/auth/login''
        (LoginRequest ''luca.verdi@example.com'' ''S3cret!pw'' None) None world0
      = Some (Rejected (AxiosError (?rq ''luca.verdi@example.com'') None),
              world0\<lparr>wire := [(?rq ''luca.verdi@example.com'', Failed None)]\<rparr>)"
    by (simp add: eval_simps offline_def)
  note T = login_outcomes_by_answer
  from a T [where n = "Suc 0" and t = demo_backend and w = world0 and r = ?ok
      and cred = "LoginRequest ''luca.verdi@example.com'' ''S3cret!pw'' None"]
  have 1: "authService_login (Suc 0) demo_backend
       (LoginRequest ''luca.verdi@example.com'' ''S3cret!pw'' None) world0
     = Some (Resolved (data ?ok),
              world0\<lparr>server := True, wire := [(?rq ''luca.verdi@example.com'', Fulfilled ?ok)]\<rparr>)"
    by blast
  from b T [where n = "Suc 0" and t = demo_backend and w = world0 and r = ?totp
      and c = "?rq ''totp@example.com''"
      and cred = "LoginRequest ''totp@example.com'' ''S3cret!pw'' None"]
  have 2: "authService_login (Suc 0) demo_backend
       (LoginRequest ''totp@example.com'' ''S3cret!pw'' None) world0
     = Some (Resolved (data ?totp), world0\<lparr>wire := [(?rq ''totp@example.com'', Failed (Some ?totp))]\<rparr>)"
    by simp
  from c T [where n = "Suc 0" and t = demo_backend and w = world0 and r = ?locked
      and c = "?rq ''locked@example.com''"
      and cred = "LoginRequest ''locked@example.com'' ''S3cret!pw'' None"]
  have 3: "authService_login (Suc 0) demo_backend
       (LoginRequest ''locked@example.com'' ''S3cret!pw'' None) world0
     = Some (Rejected (ThrownData (data ?locked)),
             world0\<lparr>wire := [(?rq ''locked@example.com'', Failed (Some ?locked))]\<rparr>)"
    by simp
  from d T [where n = "Suc 0" and t = offline and w = world0
      and err = "AxiosError (?rq ''luca.verdi@example.com'') None"
      and cred = "LoginRequest ''luca.verdi@example.com'' ''S3cret!pw'' None"]
  have 4: "authService_login (Suc 0) offline
       (LoginRequest ''luca.verdi@example.com'' ''S3cret!pw'' None) world0
     = Some (Rejected (AxiosError (?rq ''luca.verdi@example.com'') None),
             world0\<lparr>wire := [(?rq ''luca.verdi@example.com'', Failed None)]\<rparr>)"
    by simp
  have w0: "world state0 = world0" by (simp add: state0_def)
  from 2 T [where n = "Suc 0" and t = demo_backend and e = "''totp@example.com''"
      and pw = "''S3cret!pw''" and tc = None and st = state0 and d = "data ?totp"
      and w' = "world0\<lparr>wire := [(?rq ''totp@example.com'', Failed (Some ?totp))]\<rparr>"]
  have 5: "login (Suc 0) demo_backend ''totp@example.com'' ''S3cret!pw'' None state0
     = Some (\<lparr> success = False, requiresTOTP = Some True,
                result_error = Some ''TOTP code required'' \<rparr>,
             state0\<lparr>world := world0\<lparr>wire := [(?rq ''totp@example.com'', Failed (Some ?totp))]\<rparr>\<rparr>)"
    by (simp add: w0 no_data_def)
  from 1 2 3 4 5 show ?thesis by simp
qed

text \<open>
  C3 says that when the backend answers the login with status 422 the provider's
  \<open>login\<close> returns \<open>{ success: false, requiresTOTP: true }\<close>. The code does not do so
  when the body of that answer has \<open>totp_required\<close> false (or lacks the field): the
  service returns the error body as a normal value, the provider tests the field, takes
  the body for an \<open>AuthTokenResponse\<close>, sets \<open>isAuthenticated\<close> and reports success:
  the user is signed in on a login the backend refused. Here the backend refuses the
  address \<open>not-an-address\<close> with status 422; the wire shows that one answer.
\<close>

theorem C3_status_422_signs_in:
  "map_option (\<lambda>x. (fst x, isAuthenticated (snd x), map snd (wire (world (snd x)))))
     (login (Suc 0) demo_backend ''not-an-address'' ''S3cret!pw'' None state0)
   = Some (\<lparr> success = True, requiresTOTP = None, result_error = None \<rparr>,
           True,
           [Failed (Some \<lparr> status = 422,
                           data = no_data\<lparr> error := Some ''invalid email'',
                                           totp_required := Some False \<rparr> \<rparr>)])"
  by (simp add: login_def authService_login_def eval_simps demo_backend_def)

subsection \<open>Verification of TOTP codes\<close>

lemma response_data_of_Resolved:
  "response_data_of x = Some (Resolved v, w') \<Longrightarrow> \<exists>r. x = Some (Resolved r, w') \<and> data r = v"
  by (auto simp: response_data_of_def split: option.splits promise.splits)

lemma post_resolved_last:
  assumes "response_data_of (apiMethods_post n t u d None w) = Some (Resolved v, w')"
  shows "\<exists>rq r. wire w' \<noteq> [] \<and> last (wire w') = (rq, Fulfilled r) \<and> data r = v \<and>
           req_method rq = POST \<and> url rq = u \<and> req_data rq = d"
proof -
  from response_data_of_Resolved [OF assms] obtain r where
    r: "api n t (axios_request POST u d None) w = Some (Resolved r, w')" "data r = v"
    by (auto simp: apiMethods_post_def)
  from api_resolved_last [OF r(1)] obtain rq where
    "wire w' \<noteq> []" "last (wire w') = (rq, Fulfilled r)"
    "rq = axios_request POST u d None \<or> rq = (axios_request POST u d None)\<lparr>retry := True\<rparr>"
    by blast
  moreover from this(3) have "req_method rq = POST \<and> url rq = u \<and> req_data rq = d"
    by (auto simp: axios_request_def)
  ultimately show ?thesis using r(2) by blast
qed

text \<open>
  C4, amended: in the auth service a verdict on a two-factor code comes from the backend.
  When \<open>authService.twoFactor.verify\<close> or \<open>authService.twoFactor.totp.verify\<close> returns
  a body, that body is the one of the last exchange on the wire, a fulfilled \<open>POST\<close> to
  the user's \<open>2fa/verify\<close> or \<open>totp/verify\<close> endpoint whose request carried the
  submitted code. The legacy auth context's \<open>verify2FA\<close> is a mock that decides in the
  client: it accepts the code \<open>123456\<close> and no other.
\<close>

theorem C4_service_verdict_from_backend:
  "(authService_twoFactor_verify n t userId d w = Some (Resolved v, w') \<longrightarrow>
      (\<exists>rq r. wire w' \<noteq> [] \<and> last (wire w') = (rq, Fulfilled r) \<and> data r = v \<and>
         req_method rq = POST \<and> url rq = ''/users/'' @ string_of_nat userId @ ''/2fa/verify'' \<and>
         req_data rq = d)) \<and>
   (authService_twoFactor_totp_verify n t userId c w = Some (Resolved v, w') \<longrightarrow>
      (\<exists>rq r. wire w' \<noteq> [] \<and> last (wire w') = (rq, Fulfilled r) \<and> data r = v \<and>
         req_method rq = POST \<and> url rq = ''/users/'' @ string_of_nat userId @ ''/totp/verify'' \<and>
         req_data rq = TOTPRequest c)) \<and>
   verify2FA c = (c = ''123456'')"
  using post_resolved_last [of n t _ _ w v w']
  by (auto simp: authService_twoFactor_verify_def authService_twoFactor_totp_verify_def
      verify2FA_def simp del: append_assoc)

text \<open>
  The amended C4 at a backend that accepts the code \<open>492817\<close> for user 7: the service
  reports what the backend answered, for the right and for a wrong code.
\<close>

theorem C4_service_verdict_witness:
  "map_option fst (authService_twoFactor_totp_verify (Suc 0) demo_backend 7 ''492817'' world0)
     = Some (Resolved (no_data\<lparr>valid := Some True\<rparr>)) \<and>
   map_option fst (authService_twoFactor_totp_verify (Suc 0) demo_backend 7 ''123456'' world0)
     = Some (Resolved (no_data\<lparr>valid := Some False\<rparr>)) \<and>
   map_option (\<lambda>x. last (wire (snd x)))
       (authService_twoFactor_totp_verify (Suc 0) demo_backend 7 ''492817'' world0)
     = Some (axios_request POST ''/users/7/totp/verify'' (TOTPRequest ''492817'') None,
             Fulfilled \<lparr> status = 200, data = no_data\<lparr>valid := Some True\<rparr> \<rparr>) \<and>
   map_option (\<lambda>x. last (wire (snd x)))
       (authService_twoFactor_verify (Suc (Suc 0)) demo_backend 7
          (TwoFactorVerificationRequest Totp ''492817'' None) world0)
     = Some ((axios_request POST ''/users/7/2fa/verify''
                (TwoFactorVerificationRequest Totp ''492817'' None) None)\<lparr>retry := True\<rparr>,
             Fulfilled (reply 200))"
proof -
  have a: "authService_twoFactor_totp_verify (Suc 0) demo_backend 7 ''492817'' world0
      = Some (Resolved (no_data\<lparr>valid := Some True\<rparr>),
              world0\<lparr>wire := [(axios_request POST ''/users/7/totp/verify'' (TOTPRequest ''492817'') None,
                 Fulfilled \<lparr> status = 200, data = no_data\<lparr>valid := Some True\<rparr> \<rparr>)]\<rparr>)"
    by (simp add: authService_twoFactor_totp_verify_def response_data_of_def string_of_nat_7
        eval_simps demo_backend_def)
  have b: "authService_twoFactor_totp_verify (Suc 0) demo_backend 7 ''123456'' world0
      = Some (Resolved (no_data\<lparr>valid := Some False\<rparr>),
              world0\<lparr>wire := [(axios_request POST ''/users/7/totp/verify'' (TOTPRequest ''123456'') None,
                 Fulfilled \<lparr> status = 200, data = no_data\<lparr>valid := Some False\<rparr> \<rparr>)]\<rparr>)"
    by (simp add: authService_twoFactor_totp_verify_def response_data_of_def string_of_nat_7
        eval_simps demo_backend_def)
  let ?v = "axios_request POST ''/users/7/2fa/verify''
                (TwoFactorVerificationRequest Totp ''492817'' None) None"
  have c: "authService_twoFactor_verify (Suc (Suc 0)) demo_backend 7
          (TwoFactorVerificationRequest Totp ''492817'' None) world0
      = Some (Resolved no_data,
              world0\<lparr>server := True,
                     wire := [(?v, Failed (Some (reply 401))),
                              (refresh_request, Fulfilled (reply 200)),
                              (?v\<lparr>retry := True\<rparr>, Fulfilled (reply 200))]\<rparr>)"
    by (simp add: authService_twoFactor_verify_def response_data_of_def string_of_nat_7
        eval_simps demo_backend_def)
  note T = C4_service_verdict_from_backend
  from a T [where n = "Suc 0" and t = demo_backend and userId = 7 and c = "''492817''"
      and w = world0 and v = "no_data\<lparr>valid := Some True\<rparr>"]
  have "\<exists>rq r. last (wire (world0\<lparr>wire := [(axios_request POST ''/users/7/totp/verify''
          (TOTPRequest ''492817'') None,
          Fulfilled \<lparr> status = 200, data = no_data\<lparr>valid := Some True\<rparr> \<rparr>)]\<rparr>))
        = (rq, Fulfilled r) \<and> data r = no_data\<lparr>valid := Some True\<rparr>"
    by blast
  with a b c show ?thesis by simp
qed

text \<open>
  C4, as stated, fails: the legacy context's \<open>verify2FA\<close> declares \<open>123456\<close> valid and
  \<open>492817\<close> invalid by comparing strings; no backend takes part in the decision.
\<close>

theorem C4_mock_verify2FA_counterexample:
  "verify2FA ''123456'' \<and> \<not> verify2FA ''492817''"
  by (simp add: verify2FA_def)

subsection \<open>Passwords on the wire\<close>









lemma passwords_sent_append [simp]:
  "passwords_sent (xs @ ys) = passwords_sent xs @ passwords_sent ys"
  by (simp add: passwords_sent_def map_filter_def)






subsection \<open>Configuration of the requests\<close>







subsection \<open>Logout\<close>

text \<open>
  C9 says that \<open>logout\<close> always ends in the signed-out state, whatever becomes of the
  \<open>POST /auth/logout\<close> call. The code does not when that call is answered 401 and so is
  every refresh (the session has expired): the interceptor's refresh is intercepted in
  turn, without end, the call never settles, the \<open>finally\<close> block is never reached, and
  the user stays signed in. At the backend \<open>no_session\<close>, from a signed-in state,
  \<open>logout\<close> completes at no depth of the recursion.
\<close>

theorem C9_logout_never_completes_on_401:
  "logout n no_session signed_in = None \<and>
   isAuthenticated signed_in \<and> user signed_in = Some getMockAuthenticatedUser"
proof -
  have "\<And>w. api n no_session (axios_request POST ''/auth/logout'' NoData None) w = None"
    by (rule no_session_never_settles) (simp add: axios_request_def)
  then show ?thesis
    by (simp add: logout_def authService_logout_def response_data_of_def apiMethods_post_def
        signed_in_def)
qed

text \<open>
  What \<open>logout\<close> does once its call has settled: whenever it completes, \<open>user\<close> is null
  and \<open>isAuthenticated\<close> is false, and it completes as soon as the
  \<open>POST /auth/logout\<close> call has settled, whether that call resolved or threw.
\<close>

lemma logout_signs_out_settled:
  "(logout n t st = Some st' \<longrightarrow> user st' = None \<and> \<not> isAuthenticated st') \<and>
   (authService_logout n t (world st) = Some (outcome, w') \<longrightarrow>
      (\<exists>st'. logout n t st = Some st' \<and> user st' = None \<and> \<not> isAuthenticated st' \<and> world st' = w'))"
  by (auto simp: logout_def tokenUtils_clearAuthTokens_def split: option.splits)

text \<open>
  The settled logout from a signed-in state, at a backend that accepts it and at a
  network that is down (the call throws).
\<close>

lemma logout_signs_out_settled_example:
  "map_option (\<lambda>s. (user s, isAuthenticated s)) (logout (Suc 0) demo_backend signed_in) = Some (None, False) \<and>
   map_option (\<lambda>s. (user s, isAuthenticated s)) (logout (Suc 0) offline signed_in) = Some (None, False) \<and>
   map_option fst (authService_logout (Suc 0) demo_backend (world signed_in)) = Some (Resolved no_data) \<and>
   map_option fst (authService_logout (Suc 0) offline (world signed_in))
     = Some (Rejected (AxiosError (axios_request POST ''/auth/logout'' NoData None) None))"
proof -
  have a: "authService_logout (Suc 0) demo_backend (world signed_in)
      = Some (Resolved no_data,
              world0\<lparr>wire := [(axios_request POST ''/auth/logout'' NoData None, Fulfilled (reply 200))]\<rparr>)"
    by (simp add: authService_logout_def response_data_of_def eval_simps demo_backend_def)
  have b: "authService_logout (Suc 0) offline (world signed_in)
      = Some (Rejected (AxiosError (axios_request POST ''/auth/logout'' NoData None) None),
              world0\<lparr>wire := [(axios_request POST ''/auth/logout'' NoData None, Failed None)]\<rparr>)"
    by (simp add: authService_logout_def response_data_of_def eval_simps offline_def)
  from logout_signs_out_settled [of "Suc 0" demo_backend signed_in _ "Resolved no_data"] a
  have "\<exists>st'. logout (Suc 0) demo_backend signed_in = Some st' \<and> user st' = None \<and> \<not> isAuthenticated st'"
    by blast
  moreover
  from logout_signs_out_settled [of "Suc 0" offline signed_in _
      "Rejected (AxiosError (axios_request POST ''/auth/logout'' NoData None) None)"] b
  have "\<exists>st'. logout (Suc 0) offline signed_in = Some st' \<and> user st' = None \<and> \<not> isAuthenticated st'"
    by blast
  ultimately show ?thesis using a b by auto
qed

subsection \<open>The refresh timer\<close>

lemma timer_ok_iff:
  "timer_ok b c =
     (if b then \<exists>h. intervals c = [(h, 14 * 60 * 1000)] \<and> effect_cleanup c = Some h
      else intervals c = [] \<and> effect_cleanup c = None)"
  by (auto simp: timer_ok_def split: option.splits)

lemma timer_ok_update [simp]:
  "timer_ok b (c\<lparr>effect_dep := x\<rparr>) = timer_ok b c"
  "timer_ok b (c\<lparr>auth := a\<rparr>) = timer_ok b c"
  "timer_ok b (c\<lparr>timer_refreshes := r\<rparr>) = timer_ok b c"
  by (simp_all add: timer_ok_iff)







subsection \<open>A refresh that is itself refused\<close>

text \<open>
  The refresh the interceptor awaits goes through the interceptor. When the backend
  answers every \<open>POST /auth/refresh\<close> with status 401, the refresh of a refresh is
  requested without end: no depth of the recursion settles the call, and the probe on
  mount never returns.
\<close>

theorem refresh_refused_never_settles:
  assumes "\<And>sv. \<exists>r sv'. t sv refresh_request = (Failed (Some r), sv') \<and> status r = 401"
  shows "authService_refreshToken n t w = None \<and>
         authService_verifyAuth n t w = None \<and>
         checkAuth n t st = None"
proof -
  have "\<And>w. api n t refresh_request w = None"
    using assms by (rule refresh_never_settles)
  then show ?thesis
    by (simp add: authService_refreshToken_def authService_verifyAuth_def checkAuth_def
        apiMethods_post_def response_data_of_def refresh_request_def)
qed

text \<open>The backend \<open>no_session\<close> answers every request with 401.\<close>

theorem refresh_refused_never_settles_witness:
  "authService_verifyAuth 1000 no_session world0 = None \<and> checkAuth 1000 no_session state0 = None"
  using refresh_refused_never_settles [of no_session 1000 world0 state0]
  by (simp add: no_session_def reply_def)

text \<open>
  After an answer of status 423 the service throws the response body, which has no
  \<open>response\<close> field; \<open>handleAPIError\<close> therefore reports status 0, and the provider's
  \<open>login\<close> returns the message for an unknown error, not the one for a locked account.
\<close>

theorem locked_account_message:
  assumes "apiMethods_post n t ''/auth/login'' (LoginRequest e pw tc) None (world st)
             = Some (Rejected (AxiosError c (Some r)), w')"
    and "status r = 423"
  shows "login n t e pw tc st =
           Some (\<lparr> success = False, requiresTOTP = None,
                    result_error = Some ''Network error or unknown error occurred'' \<rparr>,
                 st\<lparr>world := w'\<rparr>)"
  using assms by (simp add: login_def authService_login_def handleAPIError_def or_else_def)

theorem locked_account_message_witness:
  "map_option fst (login (Suc 0) demo_backend ''locked@example.com'' ''S3cret!pw'' None state0)
     = Some \<lparr> success = False, requiresTOTP = None,
              result_error = Some ''Network error or unknown error occurred'' \<rparr>"
proof -
  let ?rq = "axios_request POST ''/auth/login''
      (LoginRequest ''locked@example.com'' ''S3cret!pw'' None) None"
  let ?locked = "\<lparr> status = 423,
      data = no_data\<lparr>error := Some ''account locked'',
                      locked_until := Some ''2030-01-01T00:00:00Z''\<rparr> \<rparr>"
  have "apiMethods_post (Suc 0) demo_backend ''/auth/login''
        (LoginRequest ''locked@example.com'' ''S3cret!pw'' None) None (world state0)
      = Some (Rejected (AxiosError ?rq (Some ?locked)),
              world0\<lparr>wire := [(?rq, Failed (Some ?locked))]\<rparr>)"
    by (simp add: eval_simps demo_backend_def)
  from locked_account_message [OF this] show ?thesis by simp
qed

end
